theory Spec2Isabelle
  imports Main
begin

section \<open>The chat pipeline of the SnoRelax server\<close>

text \<open>
  The development embeds the chat handler of \<^verbatim>\<open>routes/chatbotRoutes\<close>
  (\<^verbatim>\<open>src/unnamed/part_002\<close>) and the socket handler of
  \<^verbatim>\<open>src/sockets/chatbotSocket.js\<close>.

  Texts are lists of 8-bit characters (the UTF-8 bytes of the JavaScript string).
  \<^verbatim>\<open>toLowerCase\<close>, \<^verbatim>\<open>trim\<close> and the indexing of a string act on the
  ASCII range as they do in JavaScript; the case mappings, the white space and
  the code units of ECMAScript beyond ASCII are not part of the model.
\<close>

subsection \<open>JavaScript strings\<close>

definition lowerChar :: "char \<Rightarrow> char" where
  "lowerChar c =
     (case map_of (zip ''ABCDEFGHIJKLMNOPQRSTUVWXYZ'' ''abcdefghijklmnopqrstuvwxyz'') c of
        Some l \<Rightarrow> l
      | None \<Rightarrow> c)"

text \<open>\<^verbatim>\<open>String.prototype.toLowerCase\<close>.\<close>

definition toLowerCase :: "string \<Rightarrow> string" where
  "toLowerCase s = map lowerChar s"

text \<open>\<^verbatim>\<open>s.startsWith(k)\<close>.\<close>

fun startsWith :: "string \<Rightarrow> string \<Rightarrow> bool" where
  "startsWith s [] = True"
| "startsWith [] (k # ks) = False"
| "startsWith (c # cs) (k # ks) = (c = k \<and> startsWith cs ks)"

text \<open>\<^verbatim>\<open>s.includes(k)\<close>: the search position moves from left to right.\<close>

fun includes_str :: "string \<Rightarrow> string \<Rightarrow> bool" where
  "includes_str [] k = (k = [])"
| "includes_str (c # cs) k = (startsWith (c # cs) k \<or> includes_str cs k)"

text \<open>\<^verbatim>\<open>String.prototype.trim\<close>, on the ASCII white space and line terminators.\<close>

definition isSpace :: "char \<Rightarrow> bool" where
  "isSpace c = (c \<in> set [CHR 0x09, CHR 0x0A, CHR 0x0B, CHR 0x0C, CHR 0x0D, CHR 0x20])"

definition trim :: "string \<Rightarrow> string" where
  "trim s = rev (dropWhile isSpace (rev (dropWhile isSpace s)))"

text \<open>\<^verbatim>\<open>Array.prototype.join\<close>.\<close>

fun join :: "string \<Rightarrow> string list \<Rightarrow> string" where
  "join sep [] = []"
| "join sep [x] = x"
| "join sep (x # y # ys) = x @ sep @ join sep (y # ys)"

text \<open>
  \<^verbatim>\<open>encodeURIComponent\<close> on a well-formed text: every byte of the UTF-8 encoding
  is kept when it is an unreserved character and written as \<^verbatim>\<open>%XX\<close> otherwise.
\<close>

definition unreserved :: "char \<Rightarrow> bool" where
  "unreserved c = (c \<in> set (''ABCDEFGHIJKLMNOPQRSTUVWXYZabcdefghijklmnopqrstuvwxyz''
                             @ ''0123456789-_.!~*'()''))"

definition hexDigit :: "nat \<Rightarrow> char" where
  "hexDigit n = ''0123456789ABCDEF'' ! (n mod 16)"

definition percentEncode :: "char \<Rightarrow> string" where
  "percentEncode c =
     (if unreserved c then [c]
      else [CHR ''%'', hexDigit (of_char c div 16), hexDigit (of_char c mod 16)])"

definition encodeURIComponent :: "string \<Rightarrow> string" where
  "encodeURIComponent s = concat (map percentEncode s)"

subsection \<open>JSON values as JavaScript sees them\<close>

text \<open>
  A number is kept as the text \<^verbatim>\<open>String(n)\<close> gives for it, so that \<^verbatim>\<open>0\<close>
  and \<^verbatim>\<open>-0\<close> are both \<open>JNum ''0''\<close>. \<^verbatim>\<open>undefined\<close> is \<open>None\<close> of
  \<open>json option\<close>.
\<close>

datatype json =
    JNull
  | JBool bool
  | JNum string
  | JStr string
  | JArr "json list"
  | JObj "(string \<times> json) list"

text \<open>Truthiness (\<^verbatim>\<open>ToBoolean\<close>).\<close>

fun truthy :: "json \<Rightarrow> bool" where
  "truthy JNull = False"
| "truthy (JBool b) = b"
| "truthy (JNum n) = (n \<noteq> ''0'' \<and> n \<noteq> ''NaN'')"
| "truthy (JStr s) = (s \<noteq> [])"
| "truthy (JArr xs) = True"
| "truthy (JObj kvs) = True"

fun truthy_opt :: "json option \<Rightarrow> bool" where
  "truthy_opt None = False"
| "truthy_opt (Some v) = truthy v"

text \<open>
  Reading a named property \<^verbatim>\<open>v.name\<close> of a value that is neither
  \<^verbatim>\<open>null\<close> nor \<^verbatim>\<open>undefined\<close>, for the names the handlers read
  (\<^verbatim>\<open>mood\<close>, \<^verbatim>\<open>habits\<close>, \<^verbatim>\<open>generations\<close>, \<^verbatim>\<open>text\<close>): only an
  object can hold them.
\<close>

fun property :: "string \<Rightarrow> json \<Rightarrow> json option" where
  "property name (JObj kvs) = map_of kvs name"
| "property name v = None"

text \<open>Optional chaining \<^verbatim>\<open>v?.name\<close> on a possibly undefined or null value.\<close>

fun opt_property :: "string \<Rightarrow> json option \<Rightarrow> json option" where
  "opt_property name None = None"
| "opt_property name (Some JNull) = None"
| "opt_property name (Some v) = property name v"

text \<open>
  Reading an index \<^verbatim>\<open>v[i]\<close> of a value that is neither \<^verbatim>\<open>null\<close> nor
  \<^verbatim>\<open>undefined\<close>: an element of an array, a character of a string, the
  property named by the digits of \<open>i\<close> of an object (the handlers read the
  indices 0 and 2).
\<close>

definition digit_name :: "nat \<Rightarrow> string" where
  "digit_name i = [''0123456789'' ! (i mod 10)]"

fun elem :: "nat \<Rightarrow> json \<Rightarrow> json option" where
  "elem i (JArr xs) = (if i < length xs then Some (xs ! i) else None)"
| "elem i (JStr s) = (if i < length s then Some (JStr [s ! i]) else None)"
| "elem i (JObj kvs) = map_of kvs (digit_name i)"
| "elem i v = None"

fun opt_elem :: "nat \<Rightarrow> json option \<Rightarrow> json option" where
  "opt_elem i None = None"
| "opt_elem i (Some JNull) = None"
| "opt_elem i (Some v) = elem i v"

text \<open>
  \<^verbatim>\<open>ToString\<close>, as string concatenation and template literals apply it.
\<close>

fun ToString :: "json \<Rightarrow> string" where
  "ToString JNull = ''null''"
| "ToString (JBool b) = (if b then ''true'' else ''false'')"
| "ToString (JNum n) = n"
| "ToString (JStr s) = s"
| "ToString (JArr xs) = join '','' (map (\<lambda>x. if x = JNull then [] else ToString x) xs)"
| "ToString (JObj kvs) = ''[object Object]''"

text \<open>
  Strict equality \<^verbatim>\<open>a === b\<close>. Primitive values are compared by value. Two
  arrays or objects are identical only as the same object; the model has no
  object identity and takes two of them to be distinct objects (the handlers
  compare a language code with the string literal \<^verbatim>\<open>"en"\<close>).
\<close>

fun strict_equals :: "json \<Rightarrow> json \<Rightarrow> bool" where
  "strict_equals (JArr xs) b = False"
| "strict_equals (JObj kvs) b = False"
| "strict_equals a b = (a = b)"

subsection \<open>Keyword extraction and the prefer-Cohere flag\<close>

text \<open>Lines 241 to 245 of the route.\<close>

definition KEYWORDS :: "string list" where
  "KEYWORDS = [''stress'', ''anxious'', ''anxiety'', ''depress'', ''sad'', ''happy'',
     ''sleep'', ''insomnia'', ''tired'', ''panic'', ''work'', ''family'',
     ''relationship'', ''angry'', ''lonely'', ''overwhelm'', ''suicid'']"

definition normalized :: "string \<Rightarrow> string" where
  "normalized translatedText =
     toLowerCase (if translatedText \<noteq> [] then translatedText else [])"

definition matchedKeywords :: "string \<Rightarrow> string list" where
  "matchedKeywords translatedText =
     filter (\<lambda>k. includes_str (normalized translatedText) k) KEYWORDS"

definition preferCohere :: "string \<Rightarrow> bool" where
  "preferCohere translatedText =
     (length (matchedKeywords translatedText) \<ge> 2
      \<or> length (matchedKeywords translatedText) = 0)"

subsection \<open>The outside world\<close>

text \<open>
  An awaited call either rejects (a network error, an abort by the timeout, a
  thrown error) or resolves to a value.
\<close>

datatype 'a promise = Rejects | Resolves 'a

text \<open>
  What the handlers read of a \<^verbatim>\<open>fetch\<close> response: \<^verbatim>\<open>res.ok\<close> and
  \<^verbatim>\<open>await res.json()\<close>, which is \<open>None\<close> when reading or parsing the body
  throws.
\<close>

record fetch_response =
  ok :: bool
  json_body :: "json option"

text \<open>
  The calls a handler makes to its collaborators, in the order it makes them.
  Documents and request bodies are the objects the code builds.
\<close>

datatype effect =
    HttpGet string
  | HttpPost string "(string \<times> string) list" json
  | CohereChat json
  | UserFindOne string
  | ChatHistoryFind string
  | ChatHistoryCreate json
  | TrainingEntryCreate json

subsection \<open>Language detection and translation\<close>

definition translate_url :: "string \<Rightarrow> string \<Rightarrow> string \<Rightarrow> string" where
  "translate_url source target text =
     ''https://translate.googleapis.com/translate_a/single?client=gtx&sl='' @ source
     @ ''&tl='' @ target @ ''&dt=t&q='' @ encodeURIComponent text"

text \<open>\<^verbatim>\<open>detectLanguage\<close> (the route and the socket module have the same body).\<close>

definition detectLanguage :: "fetch_response promise \<Rightarrow> string \<Rightarrow> json \<times> effect list" where
  "detectLanguage fetched text =
     (let url = translate_url ''auto'' ''en'' text in
      case fetched of
        Rejects \<Rightarrow> (JStr ''en'', [HttpGet url])
      | Resolves res \<Rightarrow>
          if \<not> ok res then (JStr ''en'', [HttpGet url])
          else
            (case json_body res of
               None \<Rightarrow> (JStr ''en'', [HttpGet url])
             | Some data \<Rightarrow>
                 (if truthy data \<and> truthy_opt (elem 2 data)
                  then the (elem 2 data) else JStr ''en'', [HttpGet url])))"

text \<open>
  The loop \<^verbatim>\<open>data[0].forEach(chunk => { if (chunk && chunk[0]) translated += chunk[0]; })\<close>.
\<close>

fun append_chunks :: "string \<Rightarrow> json list \<Rightarrow> string" where
  "append_chunks translated [] = translated"
| "append_chunks translated (chunk # chunks) =
     append_chunks
       (if truthy chunk \<and> truthy_opt (elem 0 chunk)
        then translated @ ToString (the (elem 0 chunk)) else translated)
       chunks"

text \<open>
  What \<^verbatim>\<open>translate\<close> does with a response: common to the route and the socket
  module.
\<close>

definition read_translation :: "fetch_response promise \<Rightarrow> string \<Rightarrow> string" where
  "read_translation fetched text =
     (case fetched of
        Rejects \<Rightarrow> text
      | Resolves res \<Rightarrow>
          if \<not> ok res then text
          else
            (case json_body res of
               None \<Rightarrow> text
             | Some data \<Rightarrow>
                 (if \<not> truthy data then text
                  else
                    (case elem 0 data of
                       Some (JArr chunks) \<Rightarrow>
                         (let translated = append_chunks [] chunks
                          in if translated \<noteq> [] then translated else text)
                     | _ \<Rightarrow> text))))"

text \<open>\<^verbatim>\<open>translate\<close> of the route (lines 185 to 210).\<close>

definition translate :: "fetch_response promise \<Rightarrow> string \<Rightarrow> json \<Rightarrow> json \<Rightarrow> string \<times> effect list" where
  "translate fetched text source target =
     (if strict_equals source target then (text, [])
      else
        (read_translation fetched text,
         [HttpGet (translate_url (ToString source) (ToString target) text)]))"

text \<open>\<^verbatim>\<open>translate\<close> of the socket module (lines 34 to 53).\<close>

definition socket_translate :: "fetch_response promise \<Rightarrow> string \<Rightarrow> json \<Rightarrow> json \<Rightarrow> string \<times> effect list" where
  "socket_translate fetched text source target =
     (if text = [] then (text, [])
      else if strict_equals source target then (text, [])
      else
        (read_translation fetched text,
         [HttpGet (translate_url (ToString source) (ToString target) text)]))"

subsection \<open>The generative backend\<close>

datatype error = NotConfigured | ModuleNotFound | CallFailed | TypeError

text \<open>\<^verbatim>\<open>COHERE_API_KEY\<close> is an environment variable: absent, or a string.\<close>

definition configured :: "string option \<Rightarrow> bool" where
  "configured key = (case key of None \<Rightarrow> False | Some k \<Rightarrow> k \<noteq> [])"

definition systemPrompt :: string where
  \<open>systemPrompt =
     ''You are SnoRelax, a compassionate AI assistant focused on mental health, ''
     @ ''stress relief, and promoting healthy lifestyles. Your responses should:\<newline>''
     @ ''\<newline>''
     @ ''1. Show empathy and understanding for users' feelings\<newline>''
     @ ''2. Provide practical, evidence-based suggestions for stress management\<newline>''
     @ ''3. Encourage healthy habits like exercise, meditation, and good sleep\<newline>''
     @ ''4. Promote seeking professional help when appropriate\<newline>''
     @ ''5. Keep responses supportive, positive, and medically appropriate\<newline>''
     @ ''6. Focus on wellness, mindfulness, and emotional well-being\<newline>''
     @ ''7. Avoid giving medical diagnoses or prescribing treatments\<newline>''
     @ ''\<newline>''
     @ ''Always respond as a caring health companion who guides users toward better ''
     @ ''mental and physical wellness.''\<close>

definition socket_systemPrompt :: string where
  \<open>socket_systemPrompt =
     ''You are SnoRelax, a compassionate AI assistant focused on mental health, ''
     @ ''stress relief, and promoting healthy lifestyles. Keep responses supportive, ''
     @ ''positive, brief, and do not provide medical diagnoses.''\<close>

text \<open>The message of the chat call: the template of lines 75 (route) and 62 (socket).\<close>

definition chat_message :: "string \<Rightarrow> string \<Rightarrow> string" where
  "chat_message prompt message =
     prompt @ ''\<newline>\<newline>User: '' @ message @ ''\<newline>\<newline>Assistant:''"

definition chat_request :: "string \<Rightarrow> json" where
  "chat_request message =
     JObj [(''message'', JStr (chat_message systemPrompt message)),
           (''model'', JStr ''command-r-08-2024''),
           (''max_tokens'', JNum ''300''),
           (''temperature'', JNum ''0.7''),
           (''k'', JNum ''0''),
           (''p'', JNum ''0.75''),
           (''frequency_penalty'', JNum ''0''),
           (''presence_penalty'', JNum ''0'')]"

definition socket_chat_request :: "string \<Rightarrow> json" where
  "socket_chat_request message =
     JObj [(''message'', JStr (chat_message socket_systemPrompt message)),
           (''model'', JStr ''command-r-08-2024''),
           (''max_tokens'', JNum ''300''),
           (''temperature'', JNum ''0.7''),
           (''k'', JNum ''0''),
           (''p'', JNum ''0.75'')]"

text \<open>
  \<^verbatim>\<open>co.chat\<close> rejects, or resolves to a response whose \<^verbatim>\<open>text\<close> is a string
  (\<open>Some\<close>) or is missing (\<open>None\<close>, where \<^verbatim>\<open>response.text.trim()\<close> raises a
  TypeError).
\<close>

definition read_chat :: "string option promise \<Rightarrow> error + string" where
  "read_chat chat =
     (case chat of
        Rejects \<Rightarrow> Inl CallFailed
      | Resolves None \<Rightarrow> Inl TypeError
      | Resolves (Some text) \<Rightarrow> Inr (trim text))"

text \<open>
  \<^verbatim>\<open>callCohereGenerate\<close> of the route (lines 54 to 86); \<open>cohere_module\<close> says
  whether \<^verbatim>\<open>require('cohere-ai')\<close> succeeds. The parameters \<open>userId\<close> and
  \<open>sessionId\<close> are not used by the body.
\<close>

definition callCohereGenerate ::
  "string option \<Rightarrow> bool \<Rightarrow> string option promise \<Rightarrow> string \<Rightarrow> string \<Rightarrow> string
    \<Rightarrow> (error + string) \<times> effect list" where
  "callCohereGenerate key cohere_module chat message userId sessionId =
     (if \<not> configured key then (Inl NotConfigured, [])
      else if \<not> cohere_module then (Inl ModuleNotFound, [])
      else (read_chat chat, [CohereChat (chat_request message)]))"

text \<open>
  \<^verbatim>\<open>callCohereGenerate\<close> of the socket module (lines 55 to 71), where a failed
  \<^verbatim>\<open>require\<close> leaves \<^verbatim>\<open>CohereClient\<close> undefined.
\<close>

definition socket_callCohereGenerate ::
  "string option \<Rightarrow> bool \<Rightarrow> string option promise \<Rightarrow> string
    \<Rightarrow> (error + string) \<times> effect list" where
  "socket_callCohereGenerate key cohere_module chat message =
     (if \<not> configured key \<or> \<not> cohere_module then (Inl NotConfigured, [])
      else (read_chat chat, [CohereChat (socket_chat_request message)]))"

subsection \<open>Mood analysis\<close>

definition moodPrompt :: "string \<Rightarrow> string" where
  \<open>moodPrompt userText =
     ''You are a compassionate mental health assistant. Analyze the user's short ''
     @ ''message and return a JSON object with two fields:\<newline>''
     @ ''1) "mood": a single-word mood label (one of: happy, sad, anxious, stressed, ''
     @ ''neutral, angry, tired, depressed, hopeful) that best summarizes the user's ''
     @ ''current emotional state.\<newline>''
     @ ''2) "habits": an array of up to 3 habit suggestion objects. Each habit suggestion ''
     @ ''should have "title" (short phrase) and "description" (one sentence practical ''
     @ ''tip). Keep descriptions concise.\<newline>''
     @ ''\<newline>''
     @ ''Input message:\<newline>''
     @ ''"""\<newline>''
     @ userText @
     ''\<newline>''
     @ ''"""\<newline>''
     @ ''\<newline>''
     @ ''Return ONLY valid JSON. Example:\<newline>''
     @ ''{"mood":"anxious","habits":[{"title":"Short breathing breaks","description":"Take ''
     @ ''3 deep breaths every hour to ground yourself."},{"title":"Move for 5 minutes","description":"Stand ''
     @ ''up and walk or stretch for 5 minutes to reduce tension."}]}\<newline>''\<close>

definition socket_moodPrompt :: "string \<Rightarrow> string" where
  \<open>socket_moodPrompt userText =
     ''You are a compassionate mental health assistant. Analyze the user's short ''
     @ ''message and return a JSON object with two fields:\<newline>''
     @ ''1) "mood": a single-word mood label (one of: happy, sad, anxious, stressed, ''
     @ ''neutral, angry, tired, depressed, hopeful)\<newline>''
     @ ''2) "habits": an array of up to 3 habit suggestion objects with "title" and ''
     @ ''"description". Return ONLY valid JSON.\<newline>''
     @ ''\<newline>''
     @ ''Input message:\<newline>''
     @ ''"""\<newline>''
     @ userText @
     ''\<newline>''
     @ ''"""\<newline>''\<close>

definition mood_request :: "string \<Rightarrow> string \<Rightarrow> effect" where
  "mood_request key prompt =
     HttpPost ''https://api.cohere.ai/v1/generate''
       [(''Content-Type'', ''application/json''), (''Authorization'', ''Bearer '' @ key)]
       (JObj [(''model'', JStr ''xlarge''),
              (''prompt'', JStr prompt),
              (''max_tokens'', JNum ''180''),
              (''temperature'', JNum ''0.4''),
              (''stop_sequences'', JArr [JStr ''\<newline>\<newline>''])])"

text \<open>
  \<^verbatim>\<open>let text = data?.generations?.[0]?.text || ''; text = text.trim();\<close> where
  \<^verbatim>\<open>trim\<close> is missing on a value that is not a string.
\<close>

definition generation_text :: "json \<Rightarrow> error + string" where
  "generation_text data =
     (let t = opt_property ''text'' (opt_elem 0 (opt_property ''generations'' (Some data)))
      in if truthy_opt t
         then (case t of Some (JStr s) \<Rightarrow> Inr (trim s) | _ \<Rightarrow> Inl TypeError)
         else Inr (trim []))"

text \<open>\<^verbatim>\<open>text.indexOf(c)\<close> for a single character, \<open>- 1\<close> when it does not occur.\<close>

fun indexOf :: "string \<Rightarrow> char \<Rightarrow> int" where
  "indexOf [] c = - 1"
| "indexOf (x # xs) c =
     (if x = c then 0 else (let i = indexOf xs c in if i < 0 then - 1 else i + 1))"

text \<open>\<^verbatim>\<open>text.slice(start)\<close> for a start that is not negative.\<close>

definition slice :: "string \<Rightarrow> int \<Rightarrow> string" where
  "slice text start = drop (nat start) text"

text \<open>
  \<^verbatim>\<open>const jsonStart = text.indexOf('{'); if (jsonStart >= 0) text = text.slice(jsonStart);\<close>
\<close>

definition json_text :: "string \<Rightarrow> string" where
  "json_text text =
     (let jsonStart = indexOf text CHR ''{''
      in if jsonStart \<ge> 0 then slice text jsonStart else text)"

text \<open>
  What \<^verbatim>\<open>callCohereAnalyzeMood\<close> does with the response, the same in both
  modules. \<open>JSON_parse\<close> is the platform's \<^verbatim>\<open>JSON.parse\<close>, \<open>None\<close> where it
  throws. The result \<open>None\<close> is \<^verbatim>\<open>null\<close>.
\<close>

definition read_mood :: "(string \<Rightarrow> json option) \<Rightarrow> fetch_response promise \<Rightarrow> json option" where
  "read_mood JSON_parse fetched =
     (case fetched of
        Rejects \<Rightarrow> None
      | Resolves res \<Rightarrow>
          if \<not> ok res then None
          else
            (case json_body res of
               None \<Rightarrow> None
             | Some data \<Rightarrow>
                 (case generation_text data of
                    Inl e \<Rightarrow> None
                  | Inr text \<Rightarrow>
                      (case JSON_parse (json_text text) of
                         None \<Rightarrow> None
                       | Some parsed \<Rightarrow>
                           if truthy parsed
                              \<and> (truthy_opt (property ''mood'' parsed)
                                   \<or> truthy_opt (property ''habits'' parsed))
                           then Some parsed else None))))"

text \<open>\<^verbatim>\<open>callCohereAnalyzeMood\<close> of the route (lines 89 to 163).\<close>

definition callCohereAnalyzeMood ::
  "(string \<Rightarrow> json option) \<Rightarrow> string option \<Rightarrow> fetch_response promise \<Rightarrow> string
    \<Rightarrow> json option \<times> effect list" where
  "callCohereAnalyzeMood JSON_parse key fetched userText =
     (if \<not> configured key then (None, [])
      else (read_mood JSON_parse fetched, [mood_request (the key) (moodPrompt userText)]))"

text \<open>\<^verbatim>\<open>callCohereAnalyzeMood\<close> of the socket module (lines 73 to 117).\<close>

definition socket_callCohereAnalyzeMood ::
  "(string \<Rightarrow> json option) \<Rightarrow> string option \<Rightarrow> fetch_response promise \<Rightarrow> string
    \<Rightarrow> json option \<times> effect list" where
  "socket_callCohereAnalyzeMood JSON_parse key fetched userText =
     (if \<not> configured key then (None, [])
      else (read_mood JSON_parse fetched, [mood_request (the key) (socket_moodPrompt userText)]))"

subsection \<open>The training file\<close>

text \<open>
  \<^verbatim>\<open>training_data.json\<close> as \<^verbatim>\<open>saveTrainingEntry\<close> reads it: missing, empty,
  holding the text of a JSON value, or unreadable (\<^verbatim>\<open>readFileSync\<close> or
  \<^verbatim>\<open>JSON.parse\<close> throws). A written array is read back as the same array.
\<close>

datatype training_file = Missing | Empty | Holds json | Unreadable

text \<open>
  \<^verbatim>\<open>saveTrainingEntry\<close> (lines 12 to 28): every exception is caught and
  logged. \<^verbatim>\<open>arr.push\<close> exists only on an array; \<open>writable\<close> says whether
  \<^verbatim>\<open>writeFileSync\<close> succeeds. After the write, \<^verbatim>\<open>triggerTrainingUpdate\<close>
  returns when the training script is missing and otherwise evaluates
  \<^verbatim>\<open>spawn\<close>, which the module never imports: the ReferenceError is caught
  there, no process is started, and the file stays as written.
\<close>

definition saveTrainingEntry :: "bool \<Rightarrow> json \<Rightarrow> training_file \<Rightarrow> training_file" where
  "saveTrainingEntry writable entry f =
     (case f of
        Missing \<Rightarrow> if writable then Holds (JArr ([] @ [entry])) else f
      | Empty \<Rightarrow> if writable then Holds (JArr ([] @ [entry])) else f
      | Holds (JArr arr) \<Rightarrow> if writable then Holds (JArr (arr @ [entry])) else f
      | Holds v \<Rightarrow> f
      | Unreadable \<Rightarrow> f)"

subsection \<open>The handlers' surroundings\<close>

text \<open>
  A stored turn of \<^verbatim>\<open>ChatHistory\<close>, with the two fields the route reads.
\<close>

record chat =
  chat_userMessage :: string
  chat_botReply :: string

text \<open>
  The request body \<^verbatim>\<open>{ userId, message, lang }\<close>: each field is absent or a
  string.
\<close>

record request =
  req_userId :: "string option"
  req_message :: "string option"
  req_lang :: "string option"

text \<open>
  What one turn meets outside the handler: the configuration, and the outcome
  of each awaited call at the place where the handler makes it.
\<close>

record env =
  COHERE_API_KEY :: "string option"
  cohere_module :: bool
  JSON_parse :: "string \<Rightarrow> json option"
  User_findOne :: "json promise"
  fetch_detect :: "fetch_response promise"
  fetch_translate_in :: "fetch_response promise"
  ChatHistory_find :: "chat list promise"
  co_chat :: "string option promise"
  fs_writable :: bool
  Date_now :: string
  Date_toISOString :: string
  fetch_mood :: "fetch_response promise"
  fetch_translate_out :: "fetch_response promise"

text \<open>A truthy request field: a string that is not empty.\<close>

definition present :: "string option \<Rightarrow> bool" where
  "present v = (case v of None \<Rightarrow> False | Some s \<Rightarrow> s \<noteq> [])"

definition apology :: string where
  "apology = ''I'm sorry, I'm having trouble responding right now. Please try again in a moment.''"

definition unavailable :: string where
  "unavailable = ''Service temporarily unavailable. Please try again later.''"

text \<open>The default reply of the route holds the seedling sign U+1F331.\<close>

definition default_reply :: string where
  "default_reply = ''I'm here to listen and support you. ''
     @ [CHR 0xF0, CHR 0x9F, CHR 0x8C, CHR 0xB1] @ '' What's on your mind?''"

definition socket_default_reply :: string where
  "socket_default_reply = ''I'm here to listen and support you. What's on your mind?''"

text \<open>The text of the answer with status 500 starts with the warning sign U+26A0 U+FE0F.\<close>

definition bot_unavailable :: string where
  "bot_unavailable =
     [CHR 0xE2, CHR 0x9A, CHR 0xA0, CHR 0xEF, CHR 0xB8, CHR 0x8F] @ '' Sorry, bot unavailable.''"

subsection \<open>The route \<^verbatim>\<open>POST /\<close>\<close>

text \<open>
  Lines 278 to 287 of the file are what is left of a removed Hugging Face
  fallback: they read a variable \<^verbatim>\<open>hfRes\<close> that nothing defines and their
  braces close blocks that were never opened. The model follows the statements
  of the handler around them: the Cohere call of lines 258 to 276, then the
  default reply of lines 289 to 294.
\<close>

datatype http_answer = Answer (answer_status: nat) (answer_payload: json)

text \<open>Lines 218 to 225: the role of the user, \<^verbatim>\<open>"user"\<close> when the lookup fails.\<close>

definition check_user_role :: "json promise \<Rightarrow> string \<Rightarrow> json \<times> effect list" where
  "check_user_role found userId =
     (case found of
        Rejects \<Rightarrow> (JStr ''user'', [UserFindOne userId])
      | Resolves user \<Rightarrow>
          (if truthy_opt (opt_property ''role'' (Some user))
           then the (opt_property ''role'' (Some user)) else JStr ''user'',
           [UserFindOne userId]))"

text \<open>
  Lines 227 to 237 (socket: 126 to 129), with the module's own \<^verbatim>\<open>translate\<close>
  as \<open>tr\<close>: the source language and the text in English.
\<close>

definition to_english ::
  "(fetch_response promise \<Rightarrow> string \<Rightarrow> json \<Rightarrow> json \<Rightarrow> string \<times> effect list)
    \<Rightarrow> env \<Rightarrow> string \<Rightarrow> string \<Rightarrow> (json \<times> string) \<times> effect list" where
  "to_english tr env message lang =
     (let (sourceLang, e1) =
            (if lang = ''auto'' then detectLanguage (fetch_detect env) message
             else (JStr lang, []));
          (translatedText, e2) =
            (if sourceLang \<noteq> JStr ''en''
             then tr (fetch_translate_in env) message sourceLang (JStr ''en'')
             else (message, []))
      in ((sourceLang, translatedText), e1 @ e2))"

text \<open>Lines 250 to 255: the prompt built from the stored turns.\<close>

definition build_prompt :: "chat list \<Rightarrow> string \<Rightarrow> string" where
  "build_prompt previousChats translatedText =
     (let prompt =
            join ''\<newline>''
              (map (\<lambda>chat. ''User: '' @ chat_userMessage chat @ ''\<newline>Bot: '' @ chat_botReply chat)
                 previousChats);
          prompt = (if length prompt \<noteq> 0 then prompt @ ''\<newline>'' else prompt)
      in prompt @ ''User: '' @ translatedText @ ''\<newline>Bot:'')"

text \<open>Lines 257 to 276 and 289 to 294: the reply and its source tag.\<close>

definition bot_logic :: "env \<Rightarrow> string \<Rightarrow> string \<Rightarrow> (string \<times> string) \<times> effect list" where
  "bot_logic env translatedText userId =
     (let (botReply, source, e) =
            (if configured (COHERE_API_KEY env) then
               (case callCohereGenerate (COHERE_API_KEY env) (cohere_module env) (co_chat env)
                       translatedText userId (''session_'' @ Date_now env) of
                  (Inr reply, e) \<Rightarrow> (reply, ''cohere'', e)
                | (Inl err, e) \<Rightarrow> (apology, ''error'', e))
             else (unavailable, ''error'', []))
      in if botReply = [] then ((default_reply, ''default''), e)
         else ((botReply, source), e))"

text \<open>The documents the route writes (lines 298 to 303, 311 to 318, 327 to 334).\<close>

definition history_document :: "string \<Rightarrow> string \<Rightarrow> string \<Rightarrow> json \<Rightarrow> json" where
  "history_document userId message botReply sourceLang =
     JObj [(''userId'', JStr userId), (''userMessage'', JStr message),
           (''botReply'', JStr botReply), (''language'', sourceLang)]"

definition trainingData :: "string \<Rightarrow> string \<Rightarrow> string \<Rightarrow> json \<Rightarrow> string \<Rightarrow> string \<Rightarrow> json" where
  "trainingData userId message botReply sourceLang source timestamp =
     JObj [(''userId'', JStr userId), (''userMessage'', JStr message),
           (''botReply'', JStr botReply), (''language'', sourceLang),
           (''source'', JStr source), (''timestamp'', JStr timestamp)]"

definition training_document :: "string \<Rightarrow> string \<Rightarrow> string \<Rightarrow> json \<Rightarrow> string \<Rightarrow> json" where
  "training_document userId message botReply sourceLang source =
     JObj [(''userId'', JStr userId), (''userMessage'', JStr message),
           (''botReply'', JStr botReply), (''language'', sourceLang),
           (''source'', JStr source), (''processed'', JBool False)]"

text \<open>
  The handler (lines 213 to 370). It returns the answer, the calls made, and the
  training file after the turn. The only exception that reaches the outer
  \<^verbatim>\<open>catch\<close> is a rejected \<^verbatim>\<open>ChatHistory.find\<close>. The prompt of lines 250 to
  255 is built and not read again.
\<close>

definition chat_route :: "env \<Rightarrow> training_file \<Rightarrow> request \<Rightarrow> http_answer \<times> effect list \<times> training_file" where
  "chat_route env file req =
     (if \<not> present (req_message req) \<or> \<not> present (req_userId req)
      then (Answer 400 (JObj [(''error'', JStr ''Message and userId required'')]), [], file)
      else
        let userId = the (req_userId req);
            message = the (req_message req);
            lang = (case req_lang req of None \<Rightarrow> ''auto'' | Some l \<Rightarrow> l);
            (userRole, e1) = check_user_role (User_findOne env) userId;
            ((sourceLang, translatedText), e2) = to_english translate env message lang;
            preferred = preferCohere translatedText
        in
          case ChatHistory_find env of
            Rejects \<Rightarrow>
              (Answer 500 (JObj [(''sender'', JStr ''bot''), (''text'', JStr bot_unavailable)]),
               e1 @ e2 @ [ChatHistoryFind userId], file)
          | Resolves previousChats \<Rightarrow>
              let prompt = build_prompt previousChats translatedText;
                  ((botReply, source), e3) = bot_logic env translatedText userId;
                  e4 = [ChatHistoryCreate (history_document userId message botReply sourceLang)];
                  file' = saveTrainingEntry (fs_writable env)
                            (trainingData userId message botReply sourceLang source
                               (Date_toISOString env)) file;
                  e5 = (if source = ''cohere'' \<or> preferred
                        then [TrainingEntryCreate
                                (training_document userId message botReply sourceLang source)]
                        else []);
                  (moodAnalysis, e6) =
                    callCohereAnalyzeMood (JSON_parse env) (COHERE_API_KEY env) (fetch_mood env)
                      message;
                  (finalReply, e7) =
                    (if sourceLang \<noteq> JStr ''en''
                     then translate (fetch_translate_out env) botReply (JStr ''en'') sourceLang
                     else (botReply, []));
                  resp = [(''sender'', JStr ''bot''), (''text'', JStr finalReply),
                          (''role'', userRole)];
                  resp = (if truthy_opt moodAnalysis
                          then resp @ [(''moodAnalysis'', the moodAnalysis)] else resp)
              in (Answer 200 (JObj resp),
                  e1 @ e2 @ [ChatHistoryFind userId] @ e3 @ e4 @ e5 @ e6 @ e7, file'))"

subsection \<open>The socket event \<^verbatim>\<open>chatbotMessage\<close>\<close>

datatype emitted = Emit (emitted_event: string) (emitted_payload: json)

text \<open>Lines 131 to 150 of the socket module.\<close>

definition socket_bot_logic :: "env \<Rightarrow> string \<Rightarrow> (string \<times> string) \<times> effect list" where
  "socket_bot_logic env translatedText =
     (let (botReply, source, e) =
            (if configured (COHERE_API_KEY env) then
               (case socket_callCohereGenerate (COHERE_API_KEY env) (cohere_module env)
                       (co_chat env) translatedText of
                  (Inr reply, e) \<Rightarrow> (reply, ''cohere'', e)
                | (Inl err, e) \<Rightarrow> (apology, ''error'', e))
             else (unavailable, ''error'', []))
      in if botReply = [] then ((socket_default_reply, ''default''), e)
         else ((botReply, source), e))"

definition socket_training_document :: "string \<Rightarrow> string \<Rightarrow> string \<Rightarrow> json \<Rightarrow> string \<Rightarrow> json" where
  "socket_training_document userId message botReply sourceLang source =
     JObj [(''userId'', JStr userId), (''userMessage'', JStr message),
           (''botReply'', JStr botReply), (''language'', sourceLang),
           (''source'', JStr source)]"

text \<open>
  The handler (lines 120 to 184): the emitted event and the calls made. A
  missing payload is the request with no field.
\<close>

definition chatbotMessage :: "env \<Rightarrow> request \<Rightarrow> emitted \<times> effect list" where
  "chatbotMessage env payload =
     (if \<not> present (req_userId payload) \<or> \<not> present (req_message payload)
      then (Emit ''chatbotError'' (JObj [(''error'', JStr ''userId and message required'')]), [])
      else
        let userId = the (req_userId payload);
            message = the (req_message payload);
            lang = (case req_lang payload of None \<Rightarrow> ''auto'' | Some l \<Rightarrow> l);
            ((sourceLang, translatedText), e1) = to_english socket_translate env message lang;
            ((botReply, source), e2) = socket_bot_logic env translatedText;
            e3 = [ChatHistoryCreate (history_document userId message botReply sourceLang)];
            e4 = (if source = ''cohere''
                  then [TrainingEntryCreate
                          (socket_training_document userId message botReply sourceLang source)]
                  else []);
            (moodAnalysis, e5) =
              socket_callCohereAnalyzeMood (JSON_parse env) (COHERE_API_KEY env) (fetch_mood env)
                message;
            (finalReply, e6) =
              (if sourceLang \<noteq> JStr ''en''
               then socket_translate (fetch_translate_out env) botReply (JStr ''en'') sourceLang
               else (botReply, []));
            resp = [(''sender'', JStr ''bot''), (''text'', JStr finalReply),
                    (''moodAnalysis'', case moodAnalysis of None \<Rightarrow> JNull | Some m \<Rightarrow> m)]
        in (Emit ''chatbotResponse'' (JObj resp), e1 @ e2 @ e3 @ e4 @ e5 @ e6))"

subsection \<open>Observations and examples\<close>

text \<open>The arguments of the chat calls and the documents of the training store, in a trace.\<close>

fun chat_calls :: "effect list \<Rightarrow> json list" where
  "chat_calls [] = []"
| "chat_calls (CohereChat r # es) = r # chat_calls es"
| "chat_calls (e # es) = chat_calls es"

fun training_calls :: "effect list \<Rightarrow> json list" where
  "training_calls [] = []"
| "training_calls (TrainingEntryCreate d # es) = d # training_calls es"
| "training_calls (e # es) = training_calls es"

text \<open>The array a readable training file holds.\<close>

fun entries :: "training_file \<Rightarrow> json list option" where
  "entries Missing = Some []"
| "entries Empty = Some []"
| "entries (Holds (JArr arr)) = Some arr"
| "entries f = None"

text \<open>
  The shape of a mood analysis as the specification words it: \<open>mood\<close> is one
  of nine labels and \<open>habits\<close> is a sequence of at most three objects, each
  with a title and a description.
\<close>

definition MOODS :: "string list" where
  "MOODS = [''happy'', ''sad'', ''anxious'', ''stressed'', ''neutral'', ''angry'', ''tired'',
            ''depressed'', ''hopeful'']"

fun spec_habit :: "json \<Rightarrow> bool" where
  "spec_habit (JObj kvs) = (map_of kvs ''title'' \<noteq> None \<and> map_of kvs ''description'' \<noteq> None)"
| "spec_habit v = False"

fun spec_mood_label :: "json option \<Rightarrow> bool" where
  "spec_mood_label (Some (JStr m)) = (m \<in> set MOODS)"
| "spec_mood_label v = False"

fun spec_habits :: "json option \<Rightarrow> bool" where
  "spec_habits (Some (JArr hs)) = (length hs \<le> 3 \<and> list_all spec_habit hs)"
| "spec_habits v = False"

definition spec_well_formed :: "json \<Rightarrow> bool" where
  "spec_well_formed v =
     (spec_mood_label (property ''mood'' v) \<and> spec_habits (property ''habits'' v))"

text \<open>
  \<^verbatim>\<open>JSON.parse\<close> at the three texts of the examples: it returns an object
  for \<^verbatim>\<open>{"mood":"ecstatic"}\<close> and for \<^verbatim>\<open>{"feeling":"sad"}\<close>, and throws a
  SyntaxError for \<^verbatim>\<open>{"mood":\<close>. The examples apply it to no other text.
\<close>

definition JSON_parse_examples :: "string \<Rightarrow> json option" where
  \<open>JSON_parse_examples text =
     (if text = ''{"mood":"ecstatic"}'' then Some (JObj [(''mood'', JStr ''ecstatic'')])
      else if text = ''{"feeling":"sad"}'' then Some (JObj [(''feeling'', JStr ''sad'')])
      else None)\<close>

text \<open>The body of a response of the generate endpoint with one generation.\<close>

definition generation_body :: "string \<Rightarrow> json" where
  "generation_body text = JObj [(''generations'', JArr [JObj [(''text'', JStr text)]])]"

text \<open>A turn in which every collaborator answers, and one request.\<close>

definition env_example :: env where
  "env_example =
     \<lparr>COHERE_API_KEY = Some ''key'', cohere_module = True, JSON_parse = JSON_parse_examples,
      User_findOne = Resolves JNull, fetch_detect = Rejects, fetch_translate_in = Rejects,
      ChatHistory_find = Resolves [], co_chat = Resolves (Some ''You are not alone.''),
      fs_writable = True, Date_now = ''1700000000000'',
      Date_toISOString = ''2023-11-14T22:13:20.000Z'', fetch_mood = Rejects,
      fetch_translate_out = Rejects\<rparr>"

definition req_example :: request where
  "req_example = \<lparr>req_userId = Some ''u1'', req_message = Some ''hello'', req_lang = Some ''en''\<rparr>"

text \<open>A stored turn, and a request that asks about it.\<close>

definition history_example :: "chat list" where
  "history_example =
     [\<lparr>chat_userMessage = ''my name is Ann'', chat_botReply = ''Nice to meet you, Ann.''\<rparr>]"

definition req_name_example :: request where
  "req_name_example =
     \<lparr>req_userId = Some ''u1'', req_message = Some ''what is my name?'', req_lang = Some ''en''\<rparr>"

text \<open>
  The values a turn of the route computes on its way (the names are the
  handler's variables), and those of a turn of the socket handler.
\<close>

definition lang_of :: "request \<Rightarrow> string" where
  "lang_of req = (case req_lang req of None \<Rightarrow> ''auto'' | Some l \<Rightarrow> l)"

definition route_sourceLang :: "env \<Rightarrow> request \<Rightarrow> json" where
  "route_sourceLang env req =
     fst (fst (to_english translate env (the (req_message req)) (lang_of req)))"

definition route_translatedText :: "env \<Rightarrow> request \<Rightarrow> string" where
  "route_translatedText env req =
     snd (fst (to_english translate env (the (req_message req)) (lang_of req)))"

definition route_botReply :: "env \<Rightarrow> request \<Rightarrow> string" where
  "route_botReply env req =
     fst (fst (bot_logic env (route_translatedText env req) (the (req_userId req))))"

definition route_source :: "env \<Rightarrow> request \<Rightarrow> string" where
  "route_source env req =
     snd (fst (bot_logic env (route_translatedText env req) (the (req_userId req))))"

definition route_moodAnalysis :: "env \<Rightarrow> request \<Rightarrow> json option" where
  "route_moodAnalysis env req =
     fst (callCohereAnalyzeMood (JSON_parse env) (COHERE_API_KEY env) (fetch_mood env)
            (the (req_message req)))"

definition socket_sourceLang :: "env \<Rightarrow> request \<Rightarrow> json" where
  "socket_sourceLang env req =
     fst (fst (to_english socket_translate env (the (req_message req)) (lang_of req)))"

definition socket_translatedText :: "env \<Rightarrow> request \<Rightarrow> string" where
  "socket_translatedText env req =
     snd (fst (to_english socket_translate env (the (req_message req)) (lang_of req)))"

definition socket_botReply :: "env \<Rightarrow> request \<Rightarrow> string" where
  "socket_botReply env req = fst (fst (socket_bot_logic env (socket_translatedText env req)))"

definition socket_source :: "env \<Rightarrow> request \<Rightarrow> string" where
  "socket_source env req = snd (fst (socket_bot_logic env (socket_translatedText env req)))"

definition socket_moodAnalysis :: "env \<Rightarrow> request \<Rightarrow> json option" where
  "socket_moodAnalysis env req =
     fst (socket_callCohereAnalyzeMood (JSON_parse env) (COHERE_API_KEY env) (fetch_mood env)
            (the (req_message req)))"

text \<open>A request is complete when both required fields are truthy.\<close>

definition complete :: "request \<Rightarrow> bool" where
  "complete req = (present (req_userId req) \<and> present (req_message req))"

section \<open>Properties\<close>

subsection \<open>Keywords\<close>








text \<open>
  Claim C4. For every canonicalized text the flag \<open>preferCohere\<close> is true when
  two or more keywords matched or when none matched; it is false exactly when
  the number of matched keywords is one.
\<close>

theorem preferCohere_formula:
  "preferCohere t = (length (matchedKeywords t) \<ge> 2 \<or> length (matchedKeywords t) = 0)
   \<and> (\<not> preferCohere t) = (length (matchedKeywords t) = 1)"
  unfolding preferCohere_def by arith


subsection \<open>The reply and its source tag\<close>

lemma read_translation_nonempty: "text \<noteq> [] \<Longrightarrow> read_translation fetched text \<noteq> []"
  unfolding read_translation_def
  by (auto simp: Let_def split: promise.splits option.splits json.splits)

lemma translate_nonempty: "text \<noteq> [] \<Longrightarrow> fst (translate fetched text s t) \<noteq> []"
  unfolding translate_def by (simp add: read_translation_nonempty)

lemma socket_translate_nonempty: "text \<noteq> [] \<Longrightarrow> fst (socket_translate fetched text s t) \<noteq> []"
  unfolding socket_translate_def by (simp add: read_translation_nonempty)

lemma fixed_replies_nonempty:
  "apology \<noteq> []" "unavailable \<noteq> []" "default_reply \<noteq> []" "socket_default_reply \<noteq> []"
  by (simp_all add: apology_def unavailable_def default_reply_def socket_default_reply_def)

lemma bot_logic_cases:
  "fst (bot_logic env t u) =
     (if \<not> configured (COHERE_API_KEY env) then (unavailable, ''error'')
      else case fst (callCohereGenerate (COHERE_API_KEY env) (cohere_module env) (co_chat env) t u
                       (''session_'' @ Date_now env)) of
             Inl err \<Rightarrow> (apology, ''error'')
           | Inr reply \<Rightarrow> if reply = [] then (default_reply, ''default'') else (reply, ''cohere''))"
  unfolding bot_logic_def
  by (auto simp: fixed_replies_nonempty split: prod.splits sum.splits)

lemma socket_bot_logic_cases:
  "fst (socket_bot_logic env t) =
     (if \<not> configured (COHERE_API_KEY env) then (unavailable, ''error'')
      else case fst (socket_callCohereGenerate (COHERE_API_KEY env) (cohere_module env) (co_chat env) t) of
             Inl err \<Rightarrow> (apology, ''error'')
           | Inr reply \<Rightarrow> if reply = [] then (socket_default_reply, ''default'') else (reply, ''cohere''))"
  unfolding socket_bot_logic_def
  by (auto simp: fixed_replies_nonempty split: prod.splits sum.splits)

lemma bot_logic_nonempty: "fst (fst (bot_logic env t u)) \<noteq> []"
  unfolding bot_logic_cases by (auto simp: fixed_replies_nonempty split: sum.splits)

lemma socket_bot_logic_nonempty: "fst (fst (socket_bot_logic env t)) \<noteq> []"
  unfolding socket_bot_logic_cases by (auto simp: fixed_replies_nonempty split: sum.splits)



text \<open>The chat calls and the training documents of each stage of a turn.\<close>

lemma chat_calls_append: "chat_calls (xs @ ys) = chat_calls xs @ chat_calls ys"
  by (induction xs rule: chat_calls.induct) simp_all

lemma training_calls_append: "training_calls (xs @ ys) = training_calls xs @ training_calls ys"
  by (induction xs rule: training_calls.induct) simp_all

lemma check_user_role_calls:
  "chat_calls (snd (check_user_role found u)) = []"
  "training_calls (snd (check_user_role found u)) = []"
  unfolding check_user_role_def by (simp_all split: promise.splits)

lemma detectLanguage_calls:
  "chat_calls (snd (detectLanguage fetched m)) = []"
  "training_calls (snd (detectLanguage fetched m)) = []"
  unfolding detectLanguage_def by (simp_all add: Let_def split: promise.splits option.splits)

lemma translate_calls:
  "chat_calls (snd (translate fetched m s t)) = []"
  "training_calls (snd (translate fetched m s t)) = []"
  "chat_calls (snd (socket_translate fetched m s t)) = []"
  "training_calls (snd (socket_translate fetched m s t)) = []"
  unfolding translate_def socket_translate_def by simp_all

lemma to_english_calls:
  "chat_calls (snd (to_english translate env m l)) = []"
  "training_calls (snd (to_english translate env m l)) = []"
  "chat_calls (snd (to_english socket_translate env m l)) = []"
  "training_calls (snd (to_english socket_translate env m l)) = []"
  unfolding to_english_def
  by (simp_all add: Let_def case_prod_beta chat_calls_append training_calls_append
        detectLanguage_calls translate_calls)

lemma mood_calls:
  "chat_calls (snd (callCohereAnalyzeMood P key fetched m)) = []"
  "training_calls (snd (callCohereAnalyzeMood P key fetched m)) = []"
  "chat_calls (snd (socket_callCohereAnalyzeMood P key fetched m)) = []"
  "training_calls (snd (socket_callCohereAnalyzeMood P key fetched m)) = []"
  unfolding callCohereAnalyzeMood_def socket_callCohereAnalyzeMood_def mood_request_def
  by simp_all

lemma bot_logic_effects:
  "snd (bot_logic env t u) =
     (if configured (COHERE_API_KEY env) \<and> cohere_module env
      then [CohereChat (chat_request t)] else [])"
  unfolding bot_logic_def callCohereGenerate_def
  by (auto split: prod.splits sum.splits)

lemma socket_bot_logic_effects:
  "snd (socket_bot_logic env t) =
     (if configured (COHERE_API_KEY env) \<and> cohere_module env
      then [CohereChat (socket_chat_request t)] else [])"
  unfolding socket_bot_logic_def socket_callCohereGenerate_def
  by (auto split: prod.splits sum.splits)

text \<open>The parts of a completed turn of the route.\<close>

lemma chat_route_completed:
  assumes "present (req_message req)" "present (req_userId req)"
      and "ChatHistory_find env = Resolves previousChats"
  shows "chat_route env file req =
     (let userId = the (req_userId req);
          message = the (req_message req);
          lang = (case req_lang req of None \<Rightarrow> ''auto'' | Some l \<Rightarrow> l);
          role = check_user_role (User_findOne env) userId;
          english = to_english translate env message lang;
          sourceLang = fst (fst english);
          translatedText = snd (fst english);
          logic = bot_logic env translatedText userId;
          botReply = fst (fst logic);
          source = snd (fst logic);
          mood = callCohereAnalyzeMood (JSON_parse env) (COHERE_API_KEY env) (fetch_mood env) message;
          back = (if sourceLang \<noteq> JStr ''en''
                  then translate (fetch_translate_out env) botReply (JStr ''en'') sourceLang
                  else (botReply, []))
      in (Answer 200
            (JObj ([(''sender'', JStr ''bot''), (''text'', JStr (fst back)), (''role'', fst role)]
                   @ (if truthy_opt (fst mood) then [(''moodAnalysis'', the (fst mood))] else []))),
          snd role @ snd english @ [ChatHistoryFind userId] @ snd logic
            @ [ChatHistoryCreate (history_document userId message botReply sourceLang)]
            @ (if source = ''cohere'' \<or> preferCohere translatedText
               then [TrainingEntryCreate (training_document userId message botReply sourceLang source)]
               else [])
            @ snd mood @ snd back,
          saveTrainingEntry (fs_writable env)
            (trainingData userId message botReply sourceLang source (Date_toISOString env)) file))"
  using assms unfolding chat_route_def
  by (simp add: Let_def case_prod_beta)

lemma chatbotMessage_completed:
  assumes "present (req_userId req)" "present (req_message req)"
  shows "chatbotMessage env req =
     (let userId = the (req_userId req);
          message = the (req_message req);
          lang = (case req_lang req of None \<Rightarrow> ''auto'' | Some l \<Rightarrow> l);
          english = to_english socket_translate env message lang;
          sourceLang = fst (fst english);
          translatedText = snd (fst english);
          logic = socket_bot_logic env translatedText;
          botReply = fst (fst logic);
          source = snd (fst logic);
          mood = socket_callCohereAnalyzeMood (JSON_parse env) (COHERE_API_KEY env) (fetch_mood env) message;
          back = (if sourceLang \<noteq> JStr ''en''
                  then socket_translate (fetch_translate_out env) botReply (JStr ''en'') sourceLang
                  else (botReply, []))
      in (Emit ''chatbotResponse''
            (JObj [(''sender'', JStr ''bot''), (''text'', JStr (fst back)),
                   (''moodAnalysis'', case fst mood of None \<Rightarrow> JNull | Some m \<Rightarrow> m)]),
          snd english @ snd logic
            @ [ChatHistoryCreate (history_document userId message botReply sourceLang)]
            @ (if source = ''cohere''
               then [TrainingEntryCreate (socket_training_document userId message botReply sourceLang source)]
               else [])
            @ snd mood @ snd back))"
  using assms unfolding chatbotMessage_def
  by (simp add: Let_def case_prod_beta)

lemma status_200_route:
  assumes "answer_status (fst (chat_route env file req)) = 200"
  shows "present (req_message req) \<and> present (req_userId req)
         \<and> (\<exists>previousChats. ChatHistory_find env = Resolves previousChats)"
  using assms unfolding chat_route_def
  by (auto simp: Let_def case_prod_beta split: if_splits promise.splits)

lemma response_event_socket:
  assumes "emitted_event (fst (chatbotMessage env req)) = ''chatbotResponse''"
  shows "present (req_userId req) \<and> present (req_message req)"
  using assms unfolding chatbotMessage_def
  by (auto simp: Let_def case_prod_beta split: if_splits)

lemma route_text_nonempty:
  assumes "answer_status (fst (chat_route env file req)) = 200"
  shows "\<exists>r. property ''text'' (answer_payload (fst (chat_route env file req))) = Some (JStr r)
             \<and> r \<noteq> []"
proof -
  from status_200_route[OF assms] obtain previousChats where
    p: "present (req_message req)" "present (req_userId req)"
       "ChatHistory_find env = Resolves previousChats" by blast
  show ?thesis
    unfolding chat_route_completed[OF p]
    by (simp add: Let_def translate_nonempty bot_logic_nonempty)
qed

lemma socket_text_nonempty:
  assumes "emitted_event (fst (chatbotMessage env req)) = ''chatbotResponse''"
  shows "\<exists>r. property ''text'' (emitted_payload (fst (chatbotMessage env req))) = Some (JStr r)
             \<and> r \<noteq> []"
proof -
  from response_event_socket[OF assms] have
    p: "present (req_userId req)" "present (req_message req)" by simp_all
  show ?thesis
    unfolding chatbotMessage_completed[OF p]
    by (simp add: Let_def socket_translate_nonempty socket_bot_logic_nonempty)
qed

lemma generate_results:
  "configured key \<Longrightarrow> loaded \<Longrightarrow>
     fst (callCohereGenerate key loaded chat t u s) = read_chat chat"
  "configured key \<Longrightarrow> \<not> loaded \<Longrightarrow>
     fst (callCohereGenerate key loaded chat t u s) = Inl ModuleNotFound"
  "configured key \<Longrightarrow> loaded \<Longrightarrow>
     fst (socket_callCohereGenerate key loaded chat t) = read_chat chat"
  "configured key \<Longrightarrow> \<not> loaded \<Longrightarrow>
     fst (socket_callCohereGenerate key loaded chat t) = Inl NotConfigured"
  unfolding callCohereGenerate_def socket_callCohereGenerate_def by simp_all

text \<open>
  Claim C3. Whatever the generative backend does, the reply is not empty, in
  the route and in the socket handler, and so is the text of the answer sent.
  Without a key the reply is the fixed message that the service is unavailable,
  tagged \<^verbatim>\<open>error\<close>; when the call rejects (an error or a timeout of the
  client) or throws, it is the fixed apology, tagged \<^verbatim>\<open>error\<close>; when the
  call returns a text that is empty after trimming, it is the default message
  that starts with \<^verbatim>\<open>I'm here to listen\<close>, tagged \<^verbatim>\<open>default\<close>.
\<close>

theorem reply_never_empty:
  "fst (fst (bot_logic env t u)) \<noteq> [] \<and> fst (fst (socket_bot_logic env t)) \<noteq> []
   \<and> (answer_status (fst (chat_route env file req)) = 200 \<longrightarrow>
        (\<exists>r. property ''text'' (answer_payload (fst (chat_route env file req))) = Some (JStr r)
              \<and> r \<noteq> []))
   \<and> (emitted_event (fst (chatbotMessage env req)) = ''chatbotResponse'' \<longrightarrow>
        (\<exists>r. property ''text'' (emitted_payload (fst (chatbotMessage env req))) = Some (JStr r)
              \<and> r \<noteq> []))
   \<and> (\<not> configured (COHERE_API_KEY env) \<longrightarrow>
        fst (bot_logic env t u)
          = (''Service temporarily unavailable. Please try again later.'', ''error'')
        \<and> fst (socket_bot_logic env t)
          = (''Service temporarily unavailable. Please try again later.'', ''error''))
   \<and> (configured (COHERE_API_KEY env)
        \<and> (\<not> cohere_module env \<or> co_chat env = Rejects \<or> co_chat env = Resolves None) \<longrightarrow>
        fst (bot_logic env t u)
          = (''I'm sorry, I'm having trouble responding right now. Please try again in a moment.'',
             ''error'')
        \<and> fst (socket_bot_logic env t)
          = (''I'm sorry, I'm having trouble responding right now. Please try again in a moment.'',
             ''error''))
   \<and> (configured (COHERE_API_KEY env) \<and> cohere_module env
        \<and> co_chat env = Resolves (Some text) \<and> trim text = [] \<longrightarrow>
        fst (bot_logic env t u) = (default_reply, ''default'')
        \<and> fst (socket_bot_logic env t) = (socket_default_reply, ''default''))
   \<and> take 18 default_reply = ''I'm here to listen''
   \<and> take 18 socket_default_reply = ''I'm here to listen''"
proof -
  have unconfigured: "\<not> configured (COHERE_API_KEY env) \<longrightarrow>
        fst (bot_logic env t u) = (unavailable, ''error'')
        \<and> fst (socket_bot_logic env t) = (unavailable, ''error'')"
    by (simp add: bot_logic_cases socket_bot_logic_cases)
  have failed: "configured (COHERE_API_KEY env)
        \<and> (\<not> cohere_module env \<or> co_chat env = Rejects \<or> co_chat env = Resolves None) \<longrightarrow>
        fst (bot_logic env t u) = (apology, ''error'')
        \<and> fst (socket_bot_logic env t) = (apology, ''error'')"
    by (cases "cohere_module env")
       (auto simp: bot_logic_cases socket_bot_logic_cases generate_results read_chat_def)
  have silent: "configured (COHERE_API_KEY env) \<and> cohere_module env
        \<and> co_chat env = Resolves (Some text) \<and> trim text = [] \<longrightarrow>
        fst (bot_logic env t u) = (default_reply, ''default'')
        \<and> fst (socket_bot_logic env t) = (socket_default_reply, ''default'')"
    by (auto simp: bot_logic_cases socket_bot_logic_cases generate_results read_chat_def)
  have starts: "take 18 default_reply = ''I'm here to listen''"
    "take 18 socket_default_reply = ''I'm here to listen''"
    by (simp_all add: default_reply_def socket_default_reply_def)
  show ?thesis
    using bot_logic_nonempty[of env t u] socket_bot_logic_nonempty[of env t]
      route_text_nonempty[of env "file" req] socket_text_nonempty[of env req]
      unconfigured failed silent starts
    unfolding unavailable_def apology_def by blast
qed

theorem reply_never_empty_witness:
  "\<not> configured (COHERE_API_KEY (env_example\<lparr>COHERE_API_KEY := None\<rparr>))
   \<and> fst (bot_logic (env_example\<lparr>COHERE_API_KEY := None\<rparr>) ''hello'' ''u1'')
       = (''Service temporarily unavailable. Please try again later.'', ''error'')
   \<and> configured (COHERE_API_KEY (env_example\<lparr>co_chat := Rejects\<rparr>))
   \<and> co_chat (env_example\<lparr>co_chat := Rejects\<rparr>) = Rejects
   \<and> fst (socket_bot_logic (env_example\<lparr>co_chat := Rejects\<rparr>) ''hello'')
       = (''I'm sorry, I'm having trouble responding right now. Please try again in a moment.'',
          ''error'')
   \<and> configured (COHERE_API_KEY (env_example\<lparr>co_chat := Resolves (Some '' '')\<rparr>))
   \<and> cohere_module (env_example\<lparr>co_chat := Resolves (Some '' '')\<rparr>)
   \<and> trim '' '' = []
   \<and> fst (bot_logic (env_example\<lparr>co_chat := Resolves (Some '' '')\<rparr>) ''hello'' ''u1'')
       = (default_reply, ''default'')
   \<and> answer_status (fst (chat_route env_example Missing req_example)) = 200
   \<and> emitted_event (fst (chatbotMessage env_example req_example)) = ''chatbotResponse''
   \<and> property ''text'' (answer_payload (fst (chat_route env_example Missing req_example)))
       = Some (JStr ''You are not alone.'')"
proof -
  have c: "configured (Some ''key'')" "\<not> configured None" by (simp_all add: configured_def)
  have tr: "trim '' '' = []" by (simp add: trim_def isSpace_def)
  have p: "present (req_message req_example)" "present (req_userId req_example)"
          "ChatHistory_find env_example = Resolves []"
    by (simp_all add: present_def req_example_def env_example_def)
  have s: "answer_status (fst (chat_route env_example Missing req_example)) = 200"
    unfolding chat_route_completed[OF p] by (simp add: Let_def)
  have e: "emitted_event (fst (chatbotMessage env_example req_example)) = ''chatbotResponse''"
    unfolding chatbotMessage_completed[OF p(2) p(1)] by (simp add: Let_def)
  have ans: "property ''text'' (answer_payload (fst (chat_route env_example Missing req_example)))
       = Some (JStr ''You are not alone.'')"
    unfolding chat_route_completed[OF p]
    by (simp add: Let_def to_english_def req_example_def env_example_def bot_logic_cases
          c generate_results read_chat_def trim_def isSpace_def)
  show ?thesis
    using reply_never_empty[of "env_example\<lparr>COHERE_API_KEY := None\<rparr>" "''hello''" "''u1''"
            Missing req_example "'' ''"]
          reply_never_empty[of "env_example\<lparr>co_chat := Rejects\<rparr>" "''hello''" "''u1''"
            Missing req_example "'' ''"]
          reply_never_empty[of "env_example\<lparr>co_chat := Resolves (Some '' '')\<rparr>" "''hello''" "''u1''"
            Missing req_example "'' ''"]
          c tr s e ans
    by (simp add: env_example_def)
qed

subsection \<open>Mood analysis\<close>

lemma indexOf_ge: "indexOf s c \<ge> - 1"
  by (induction s) (auto simp: Let_def)

lemma indexOf_absent: "c \<notin> set s \<Longrightarrow> indexOf s c = - 1"
  by (induction s) (auto simp: Let_def)

lemma indexOf_present:
  "c \<in> set s \<Longrightarrow> indexOf s c = int (length (takeWhile (\<lambda>x. x \<noteq> c) s))"
  by (induction s) (auto simp: Let_def)

lemma json_text_present:
  assumes "CHR ''{'' \<in> set text"
  shows "json_text text = dropWhile (\<lambda>x. x \<noteq> CHR ''{'') text"
  using assms unfolding json_text_def slice_def
  by (simp add: Let_def indexOf_present dropWhile_eq_drop)

lemma json_text_absent: "CHR ''{'' \<notin> set text \<Longrightarrow> json_text text = text"
  unfolding json_text_def by (simp add: Let_def indexOf_absent)

lemma json_text_first_brace:
  assumes "CHR ''{'' \<in> set text"
  shows "\<exists>prose. text = prose @ json_text text \<and> CHR ''{'' \<notin> set prose
                 \<and> json_text text \<noteq> [] \<and> hd (json_text text) = CHR ''{''"
proof -
  let ?p = "takeWhile (\<lambda>x. x \<noteq> CHR ''{'') text"
  have 1: "text = ?p @ json_text text"
    by (simp add: json_text_present[OF assms])
  have 2: "CHR ''{'' \<notin> set ?p"
    by (auto dest: set_takeWhileD)
  have 3: "json_text text \<noteq> []"
    using assms by (simp add: json_text_present[OF assms])
  have 4: "hd (json_text text) = CHR ''{''"
    using assms hd_dropWhile[of "\<lambda>x. x \<noteq> CHR ''{''" "text"]
    by (simp add: json_text_present[OF assms])
  show ?thesis using 1 2 3 4 by blast
qed

lemma read_mood_Some:
  assumes "read_mood P fetched = Some v"
  shows "\<exists>res data text. fetched = Resolves res \<and> ok res \<and> json_body res = Some data
           \<and> generation_text data = Inr text \<and> P (json_text text) = Some v
           \<and> truthy v \<and> (truthy_opt (property ''mood'' v) \<or> truthy_opt (property ''habits'' v))"
  using assms unfolding read_mood_def
  by (auto split: promise.splits if_splits option.splits sum.splits)

lemma truthy_property_object:
  "truthy_opt (property name v) \<Longrightarrow> \<exists>kvs. v = JObj kvs"
  by (cases v) simp_all


lemma generation_text_body: "generation_text (generation_body raw) = Inr (trim raw)"
  unfolding generation_text_def generation_body_def
  by (simp add: Let_def trim_def)

lemma mood_unconfigured:
  "\<not> configured key \<Longrightarrow> callCohereAnalyzeMood P key fetched userText = (None, [])"
  "\<not> configured key \<Longrightarrow> socket_callCohereAnalyzeMood P key fetched userText = (None, [])"
  unfolding callCohereAnalyzeMood_def socket_callCohereAnalyzeMood_def by simp_all

lemma mood_is_read_mood:
  "fst (callCohereAnalyzeMood P key fetched userText)
     = (if configured key then read_mood P fetched else None)"
  "fst (socket_callCohereAnalyzeMood P key fetched userText)
     = (if configured key then read_mood P fetched else None)"
  unfolding callCohereAnalyzeMood_def socket_callCohereAnalyzeMood_def by simp_all

lemma read_mood_not_ok: "\<not> ok res \<Longrightarrow> read_mood P (Resolves res) = None"
  unfolding read_mood_def by simp

lemma read_mood_parsed:
  assumes "ok res" "json_body res = Some data" "generation_text data = Inr text"
  shows "read_mood P (Resolves res) =
           (case P (json_text text) of
              None \<Rightarrow> None
            | Some parsed \<Rightarrow>
                if truthy parsed \<and> (truthy_opt (property ''mood'' parsed)
                                      \<or> truthy_opt (property ''habits'' parsed))
                then Some parsed else None)"
  using assms unfolding read_mood_def by simp

lemma read_mood_depends:
  assumes "json_body res = Some data" "generation_text data = Inr text"
      and "P (json_text text) = P' (json_text text)"
  shows "read_mood P (Resolves res) = read_mood P' (Resolves res)"
  using assms unfolding read_mood_def by simp

text \<open>
  Claim C7. The mood analysis is \<^verbatim>\<open>null\<close> when no key is configured (and then
  nothing is requested), when the response has a status that is not a success,
  when the text from its first \<^verbatim>\<open>{\<close> on does not parse, and when the parsed
  value has neither \<^verbatim>\<open>mood\<close> nor \<^verbatim>\<open>habits\<close>. The text given to the parser
  is the trimmed text of the first generation from its first \<^verbatim>\<open>{\<close> on: what
  comes before holds no \<^verbatim>\<open>{\<close>, and the parser is consulted at that text only.
\<close>

theorem analyze_null_cases:
  "(\<not> configured key \<longrightarrow>
       callCohereAnalyzeMood P key fetched userText = (None, [])
       \<and> socket_callCohereAnalyzeMood P key fetched userText = (None, []))
   \<and> (fetched = Resolves res \<and> \<not> ok res \<longrightarrow>
       fst (callCohereAnalyzeMood P key fetched userText) = None
       \<and> fst (socket_callCohereAnalyzeMood P key fetched userText) = None)
   \<and> (fetched = Resolves res \<and> ok res \<and> json_body res = Some data
       \<and> generation_text data = Inr t \<and> P (json_text t) = None \<longrightarrow>
       fst (callCohereAnalyzeMood P key fetched userText) = None
       \<and> fst (socket_callCohereAnalyzeMood P key fetched userText) = None)
   \<and> (fetched = Resolves res \<and> ok res \<and> json_body res = Some data
       \<and> generation_text data = Inr t \<and> P (json_text t) = Some parsed
       \<and> property ''mood'' parsed = None \<and> property ''habits'' parsed = None \<longrightarrow>
       fst (callCohereAnalyzeMood P key fetched userText) = None
       \<and> fst (socket_callCohereAnalyzeMood P key fetched userText) = None)
   \<and> generation_text (generation_body raw) = Inr (trim raw)
   \<and> (CHR ''{'' \<in> set t \<longrightarrow>
       (\<exists>prose. t = prose @ json_text t \<and> CHR ''{'' \<notin> set prose
                \<and> hd (json_text t) = CHR ''{''))
   \<and> (fetched = Resolves res \<and> json_body res = Some data \<and> generation_text data = Inr t
       \<and> P (json_text t) = P' (json_text t) \<longrightarrow>
       callCohereAnalyzeMood P key fetched userText = callCohereAnalyzeMood P' key fetched userText
       \<and> socket_callCohereAnalyzeMood P key fetched userText
           = socket_callCohereAnalyzeMood P' key fetched userText)"
proof -
  have a: "\<not> configured key \<longrightarrow>
       callCohereAnalyzeMood P key fetched userText = (None, [])
       \<and> socket_callCohereAnalyzeMood P key fetched userText = (None, [])"
    by (simp add: mood_unconfigured)
  have b: "fetched = Resolves res \<and> \<not> ok res \<longrightarrow>
       fst (callCohereAnalyzeMood P key fetched userText) = None
       \<and> fst (socket_callCohereAnalyzeMood P key fetched userText) = None"
    by (simp add: mood_is_read_mood read_mood_not_ok)
  have c: "fetched = Resolves res \<and> ok res \<and> json_body res = Some data
       \<and> generation_text data = Inr t \<and> P (json_text t) = None \<longrightarrow>
       fst (callCohereAnalyzeMood P key fetched userText) = None
       \<and> fst (socket_callCohereAnalyzeMood P key fetched userText) = None"
    by (simp add: mood_is_read_mood read_mood_parsed)
  have d: "fetched = Resolves res \<and> ok res \<and> json_body res = Some data
       \<and> generation_text data = Inr t \<and> P (json_text t) = Some parsed
       \<and> property ''mood'' parsed = None \<and> property ''habits'' parsed = None \<longrightarrow>
       fst (callCohereAnalyzeMood P key fetched userText) = None
       \<and> fst (socket_callCohereAnalyzeMood P key fetched userText) = None"
    by (simp add: mood_is_read_mood read_mood_parsed)
  have e: "CHR ''{'' \<in> set t \<longrightarrow>
       (\<exists>prose. t = prose @ json_text t \<and> CHR ''{'' \<notin> set prose
                \<and> hd (json_text t) = CHR ''{'')"
    using json_text_first_brace[of t] by blast
  have f: "fetched = Resolves res \<and> json_body res = Some data \<and> generation_text data = Inr t
       \<and> P (json_text t) = P' (json_text t) \<longrightarrow>
       callCohereAnalyzeMood P key fetched userText = callCohereAnalyzeMood P' key fetched userText
       \<and> socket_callCohereAnalyzeMood P key fetched userText
           = socket_callCohereAnalyzeMood P' key fetched userText"
    unfolding callCohereAnalyzeMood_def socket_callCohereAnalyzeMood_def
    using read_mood_depends[of res data t P P'] by auto
  show ?thesis using a b c d e f generation_text_body[of raw] by blast
qed

lemma example_texts:
  \<open>trim ''I think: {"mood":'' = ''I think: {"mood":''\<close>
  \<open>json_text ''I think: {"mood":'' = ''{"mood":''\<close>
  \<open>trim ''{"feeling":"sad"}'' = ''{"feeling":"sad"}''\<close>
  \<open>json_text ''{"feeling":"sad"}'' = ''{"feeling":"sad"}''\<close>
  \<open>trim '' {"mood":"ecstatic"}'' = ''{"mood":"ecstatic"}''\<close>
  \<open>json_text ''{"mood":"ecstatic"}'' = ''{"mood":"ecstatic"}''\<close>
  by (simp_all add: trim_def isSpace_def json_text_def slice_def Let_def)

theorem analyze_null_cases_witness:
  \<open>\<not> configured None
   \<and> callCohereAnalyzeMood JSON_parse_examples None Rejects ''hi'' = (None, [])
   \<and> \<not> ok \<lparr>ok = False, json_body = None\<rparr>
   \<and> fst (callCohereAnalyzeMood JSON_parse_examples (Some ''key'')
             (Resolves \<lparr>ok = False, json_body = None\<rparr>) ''hi'') = None
   \<and> JSON_parse_examples (json_text (trim ''I think: {"mood":'')) = None
   \<and> fst (callCohereAnalyzeMood JSON_parse_examples (Some ''key'')
             (Resolves \<lparr>ok = True, json_body = Some (generation_body ''I think: {"mood":'')\<rparr>)
             ''hi'') = None
   \<and> JSON_parse_examples (json_text (trim ''{"feeling":"sad"}''))
       = Some (JObj [(''feeling'', JStr ''sad'')])
   \<and> property ''mood'' (JObj [(''feeling'', JStr ''sad'')]) = None
   \<and> property ''habits'' (JObj [(''feeling'', JStr ''sad'')]) = None
   \<and> fst (socket_callCohereAnalyzeMood JSON_parse_examples (Some ''key'')
             (Resolves \<lparr>ok = True, json_body = Some (generation_body ''{"feeling":"sad"}'')\<rparr>)
             ''hi'') = None
   \<and> CHR ''{'' \<in> set ''I think: {"mood":''
   \<and> hd (json_text ''I think: {"mood":'') = CHR ''{''
   \<and> callCohereAnalyzeMood JSON_parse_examples (Some ''key'')
         (Resolves \<lparr>ok = True, json_body = Some (generation_body ''I think: {"mood":'')\<rparr>) ''hi''
       = callCohereAnalyzeMood Map.empty (Some ''key'')
         (Resolves \<lparr>ok = True, json_body = Some (generation_body ''I think: {"mood":'')\<rparr>) ''hi''\<close>
proof -
  let ?bad = \<open>\<lparr>ok = True, json_body = Some (generation_body ''I think: {"mood":'')\<rparr>\<close>
  let ?odd = \<open>\<lparr>ok = True, json_body = Some (generation_body ''{"feeling":"sad"}'')\<rparr>\<close>
  let ?no = \<open>\<lparr>ok = False, json_body = None\<rparr>\<close>
  have p1: \<open>JSON_parse_examples ''{"mood":'' = None\<close>
    and p2: \<open>JSON_parse_examples ''{"feeling":"sad"}'' = Some (JObj [(''feeling'', JStr ''sad'')])\<close>
    by (simp_all add: JSON_parse_examples_def)
  have c: "configured (Some ''key'')" "\<not> configured None" by (simp_all add: configured_def)
  have g1: \<open>generation_text (generation_body ''I think: {"mood":'') = Inr ''I think: {"mood":''\<close>
    and g2: \<open>generation_text (generation_body ''{"feeling":"sad"}'') = Inr ''{"feeling":"sad"}''\<close>
    by (simp_all add: generation_text_body example_texts)
  have w1: "callCohereAnalyzeMood JSON_parse_examples None Rejects ''hi'' = (None, [])"
    using analyze_null_cases[where key = None and P = JSON_parse_examples and fetched = Rejects
        and userText = "''hi''" and res = ?no and data = JNull and t = "[]" and parsed = JNull
        and raw = "[]" and P' = JSON_parse_examples] c
    by simp
  have w2: "fst (callCohereAnalyzeMood JSON_parse_examples (Some ''key'') (Resolves ?no) ''hi'') = None"
    using analyze_null_cases[where key = "Some ''key''" and P = JSON_parse_examples
        and fetched = "Resolves ?no" and userText = "''hi''" and res = ?no
        and data = JNull and t = "[]" and parsed = JNull
        and raw = "[]" and P' = JSON_parse_examples]
    by simp
  have w3: "fst (callCohereAnalyzeMood JSON_parse_examples (Some ''key'') (Resolves ?bad) ''hi'') = None"
    using analyze_null_cases[where key = "Some ''key''" and P = JSON_parse_examples
        and fetched = "Resolves ?bad" and userText = "''hi''" and res = ?bad
        and data = \<open>generation_body ''I think: {"mood":''\<close> and t = \<open>''I think: {"mood":''\<close>
        and parsed = JNull and raw = "[]" and P' = JSON_parse_examples]
      g1 p1
    by (simp add: example_texts)
  have w4: "fst (socket_callCohereAnalyzeMood JSON_parse_examples (Some ''key'') (Resolves ?odd) ''hi'') = None"
    using analyze_null_cases[where key = "Some ''key''" and P = JSON_parse_examples
        and fetched = "Resolves ?odd" and userText = "''hi''" and res = ?odd
        and data = \<open>generation_body ''{"feeling":"sad"}''\<close> and t = \<open>''{"feeling":"sad"}''\<close>
        and parsed = \<open>JObj [(''feeling'', JStr ''sad'')]\<close> and raw = "[]"
        and P' = JSON_parse_examples]
      g2 p2
    by (simp add: example_texts)
  have w5: \<open>hd (json_text ''I think: {"mood":'') = CHR ''{''\<close>
    using analyze_null_cases[where key = None and P = JSON_parse_examples and fetched = Rejects
        and userText = "''hi''" and res = ?no and data = JNull and t = \<open>''I think: {"mood":''\<close>
        and parsed = JNull and raw = "[]" and P' = JSON_parse_examples]
    by auto
  have w6: "callCohereAnalyzeMood JSON_parse_examples (Some ''key'') (Resolves ?bad) ''hi''
       = callCohereAnalyzeMood Map.empty (Some ''key'') (Resolves ?bad) ''hi''"
    using analyze_null_cases[where key = "Some ''key''" and P = JSON_parse_examples
        and fetched = "Resolves ?bad" and userText = "''hi''" and res = ?bad
        and data = \<open>generation_body ''I think: {"mood":''\<close> and t = \<open>''I think: {"mood":''\<close>
        and parsed = JNull and raw = "[]" and P' = Map.empty]
      g1 p1
    by (simp add: example_texts)
  show ?thesis
    using w1 w2 w3 w4 w5 w6 p1 p2 c by (simp add: example_texts)
qed

text \<open>
  Claim C6, as stated, fails: the validation of the parsed value is the test
  \<^verbatim>\<open>parsed && (parsed.mood || parsed.habits)\<close> and nothing else. A backend text
  \<^verbatim>\<open>{"mood":"ecstatic"}\<close> is returned as the analysis, with a mood outside the
  nine labels and no habits.
\<close>

theorem mood_shape_counterexample:
  \<open>fst (callCohereAnalyzeMood JSON_parse_examples (Some ''key'')
          (Resolves \<lparr>ok = True, json_body = Some (generation_body '' {"mood":"ecstatic"}'')\<rparr>)
          ''I feel great'')
     = Some (JObj [(''mood'', JStr ''ecstatic'')])
   \<and> \<not> spec_well_formed (JObj [(''mood'', JStr ''ecstatic'')])\<close>
proof -
  have \<open>read_mood JSON_parse_examples
          (Resolves \<lparr>ok = True, json_body = Some (generation_body '' {"mood":"ecstatic"}'')\<rparr>)
        = Some (JObj [(''mood'', JStr ''ecstatic'')])\<close>
    by (simp add: read_mood_parsed[OF _ _ generation_text_body] example_texts
          JSON_parse_examples_def)
  moreover have "\<not> spec_well_formed (JObj [(''mood'', JStr ''ecstatic'')])"
    by (simp add: spec_well_formed_def)
  ultimately show ?thesis
    by (simp add: mood_is_read_mood configured_def)
qed

text \<open>
  Claim C6, amended. Every analysis that is not \<^verbatim>\<open>null\<close> is the object parsed
  from the text of a successful response, taken from its first \<^verbatim>\<open>{\<close> on, and
  it has a truthy \<^verbatim>\<open>mood\<close> or a truthy \<^verbatim>\<open>habits\<close>. The label and the number
  and shape of the habits are not checked.
\<close>

theorem mood_basic_validation:
  assumes "fst (callCohereAnalyzeMood P key fetched userText) = Some v
           \<or> fst (socket_callCohereAnalyzeMood P key fetched userText) = Some v"
  shows "(\<exists>kvs. v = JObj kvs
            \<and> (truthy_opt (map_of kvs ''mood'') \<or> truthy_opt (map_of kvs ''habits'')))
         \<and> (\<exists>res data t. configured key \<and> fetched = Resolves res \<and> ok res
               \<and> json_body res = Some data \<and> generation_text data = Inr t
               \<and> P (json_text t) = Some v)"
proof -
  from assms have r: "configured key" "read_mood P fetched = Some v"
    by (auto simp: mood_is_read_mood split: if_splits)
  from read_mood_Some[OF r(2)] obtain res data t where
    d: "fetched = Resolves res" "ok res" "json_body res = Some data"
       "generation_text data = Inr t" "P (json_text t) = Some v"
       "truthy_opt (property ''mood'' v) \<or> truthy_opt (property ''habits'' v)"
    by blast
  from d(6) obtain kvs where k: "v = JObj kvs"
    using truthy_property_object by blast
  with d(6) have "truthy_opt (map_of kvs ''mood'') \<or> truthy_opt (map_of kvs ''habits'')"
    by simp
  with k r(1) d show ?thesis by blast
qed

theorem mood_basic_validation_witness:
  \<open>fst (callCohereAnalyzeMood JSON_parse_examples (Some ''key'')
          (Resolves \<lparr>ok = True, json_body = Some (generation_body '' {"mood":"ecstatic"}'')\<rparr>)
          ''I feel great'')
     = Some (JObj [(''mood'', JStr ''ecstatic'')])
   \<and> truthy_opt (map_of [(''mood'', JStr ''ecstatic'')] ''mood'')
   \<and> configured (Some ''key'')
   \<and> (\<exists>t. JSON_parse_examples (json_text t) = Some (JObj [(''mood'', JStr ''ecstatic'')]))\<close>
proof -
  have a: \<open>fst (callCohereAnalyzeMood JSON_parse_examples (Some ''key'')
          (Resolves \<lparr>ok = True, json_body = Some (generation_body '' {"mood":"ecstatic"}'')\<rparr>)
          ''I feel great'')
     = Some (JObj [(''mood'', JStr ''ecstatic'')])\<close>
    by (simp add: mood_is_read_mood configured_def read_mood_parsed[OF _ _ generation_text_body]
          example_texts JSON_parse_examples_def)
  from mood_basic_validation[OF disjI1, OF a] a show ?thesis
    by auto
qed

subsection \<open>Translation\<close>









subsection \<open>What the generative backend receives\<close>

lemma to_english_history:
  "to_english tr (env\<lparr>ChatHistory_find := h\<rparr>) m l = to_english tr env m l"
  unfolding to_english_def by (simp add: Let_def case_prod_beta)

lemma bot_logic_history:
  "bot_logic (env\<lparr>ChatHistory_find := h\<rparr>) t u = bot_logic env t u"
  unfolding bot_logic_def by simp

lemma chat_route_chat_calls:
  "chat_calls (fst (snd (chat_route env file req))) =
     (if present (req_message req) \<and> present (req_userId req)
         \<and> ChatHistory_find env \<noteq> Rejects
         \<and> configured (COHERE_API_KEY env) \<and> cohere_module env
      then [chat_request (snd (fst (to_english translate env (the (req_message req))
                                     (case req_lang req of None \<Rightarrow> ''auto'' | Some l \<Rightarrow> l))))]
      else [])"
proof (cases "present (req_message req) \<and> present (req_userId req)")
  case False
  then show ?thesis unfolding chat_route_def by auto
next
  case True
  then have p: "present (req_message req)" "present (req_userId req)" by simp_all
  show ?thesis
  proof (cases "ChatHistory_find env")
    case Rejects
    then show ?thesis
      using p unfolding chat_route_def
      by (simp add: Let_def case_prod_beta chat_calls_append check_user_role_calls
            to_english_calls)
  next
    case (Resolves previousChats)
    show ?thesis
      unfolding chat_route_completed[OF p Resolves]
      using p Resolves
      by (simp add: Let_def chat_calls_append check_user_role_calls to_english_calls
            bot_logic_effects mood_calls translate_calls)
  qed
qed

lemma chatbotMessage_chat_calls:
  "chat_calls (snd (chatbotMessage env req)) =
     (if present (req_userId req) \<and> present (req_message req)
         \<and> configured (COHERE_API_KEY env) \<and> cohere_module env
      then [socket_chat_request (snd (fst (to_english socket_translate env (the (req_message req))
                                     (case req_lang req of None \<Rightarrow> ''auto'' | Some l \<Rightarrow> l))))]
      else [])"
proof (cases "present (req_userId req) \<and> present (req_message req)")
  case False
  then show ?thesis unfolding chatbotMessage_def by auto
next
  case True
  then have p: "present (req_userId req)" "present (req_message req)" by simp_all
  show ?thesis
    unfolding chatbotMessage_completed[OF p]
    using p
    by (simp add: Let_def chat_calls_append to_english_calls
          socket_bot_logic_effects mood_calls translate_calls)
qed

lemma chat_route_history:
  "chat_route (env\<lparr>ChatHistory_find := Resolves h1\<rparr>) file req
     = chat_route (env\<lparr>ChatHistory_find := Resolves h2\<rparr>) file req"
  unfolding chat_route_def
  by (simp add: to_english_history bot_logic_history Let_def case_prod_beta)

lemmas turn_defs =
  lang_of_def route_sourceLang_def route_translatedText_def route_botReply_def route_source_def
  route_moodAnalysis_def socket_sourceLang_def socket_translatedText_def socket_botReply_def
  socket_source_def socket_moodAnalysis_def

lemma example_request:
  "complete req_example" "complete req_name_example"
  "ChatHistory_find env_example = Resolves []"
  "configured (COHERE_API_KEY env_example)" "cohere_module env_example"
  "route_translatedText env req_example = ''hello''"
  "route_translatedText env req_name_example = ''what is my name?''"
  "socket_translatedText env req_example = ''hello''"
  "route_sourceLang env req_example = JStr ''en''"
  "socket_sourceLang env req_example = JStr ''en''"
  by (simp_all add: complete_def present_def req_example_def req_name_example_def env_example_def
        configured_def turn_defs to_english_def)

text \<open>
  Claim C1 fails on the code. The route fetches the stored turns and builds a
  prompt from them (lines 248 to 255), and then calls the backend with the
  translated message alone (line 265): the answer, the calls and the file are
  the same whatever turns are stored. The one chat call of a turn carries the
  system prompt and the current message; the socket handler reads no history.
\<close>

theorem backend_message_ignores_history:
  "chat_route (env\<lparr>ChatHistory_find := Resolves ha\<rparr>) tfile req
     = chat_route (env\<lparr>ChatHistory_find := Resolves hb\<rparr>) tfile req
   \<and> chat_calls (fst (snd (chat_route env tfile req))) =
       (if complete req \<and> ChatHistory_find env \<noteq> Rejects
           \<and> configured (COHERE_API_KEY env) \<and> cohere_module env
        then [chat_request (route_translatedText env req)] else [])
   \<and> chat_calls (snd (chatbotMessage env req)) =
       (if complete req \<and> configured (COHERE_API_KEY env) \<and> cohere_module env
        then [socket_chat_request (socket_translatedText env req)] else [])
   \<and> property ''message'' (chat_request m)
       = Some (JStr (systemPrompt @ ''\<newline>\<newline>User: '' @ m @ ''\<newline>\<newline>Assistant:''))
   \<and> property ''message'' (socket_chat_request m)
       = Some (JStr (socket_systemPrompt @ ''\<newline>\<newline>User: '' @ m @ ''\<newline>\<newline>Assistant:''))"
proof -
  have r: "chat_calls (fst (snd (chat_route env tfile req))) =
       (if complete req \<and> ChatHistory_find env \<noteq> Rejects
           \<and> configured (COHERE_API_KEY env) \<and> cohere_module env
        then [chat_request (route_translatedText env req)] else [])"
    unfolding chat_route_chat_calls complete_def turn_defs by auto
  have s: "chat_calls (snd (chatbotMessage env req)) =
       (if complete req \<and> configured (COHERE_API_KEY env) \<and> cohere_module env
        then [socket_chat_request (socket_translatedText env req)] else [])"
    unfolding chatbotMessage_chat_calls complete_def turn_defs by auto
  have m: "property ''message'' (chat_request m)
       = Some (JStr (systemPrompt @ ''\<newline>\<newline>User: '' @ m @ ''\<newline>\<newline>Assistant:''))"
    "property ''message'' (socket_chat_request m)
       = Some (JStr (socket_systemPrompt @ ''\<newline>\<newline>User: '' @ m @ ''\<newline>\<newline>Assistant:''))"
    by (simp_all add: chat_request_def socket_chat_request_def chat_message_def)
  show ?thesis
    using chat_route_history[of ha env tfile req hb] r s m by simp
qed

theorem backend_message_ignores_history_witness:
  "chat_route (env_example\<lparr>ChatHistory_find := Resolves history_example\<rparr>) Missing req_name_example
     = chat_route (env_example\<lparr>ChatHistory_find := Resolves []\<rparr>) Missing req_name_example
   \<and> chat_calls (fst (snd (chat_route (env_example\<lparr>ChatHistory_find := Resolves history_example\<rparr>)
                              Missing req_name_example)))
       = [chat_request ''what is my name?'']
   \<and> property ''message'' (chat_request ''what is my name?'')
       = Some (JStr (systemPrompt @ ''\<newline>\<newline>User: what is my name?\<newline>\<newline>Assistant:''))
   \<and> build_prompt history_example ''what is my name?''
       = ''User: my name is Ann\<newline>Bot: Nice to meet you, Ann.\<newline>User: what is my name?\<newline>Bot:''"
proof -
  let ?env = "env_example\<lparr>ChatHistory_find := Resolves history_example\<rparr>"
  have e: "ChatHistory_find ?env \<noteq> Rejects" "configured (COHERE_API_KEY ?env)"
    "cohere_module ?env"
    using example_request by simp_all
  have p: "build_prompt history_example ''what is my name?''
       = ''User: my name is Ann\<newline>Bot: Nice to meet you, Ann.\<newline>User: what is my name?\<newline>Bot:''"
    by (simp add: build_prompt_def history_example_def Let_def)
  show ?thesis
    using backend_message_ignores_history[where env = env_example and ha = history_example
            and tfile = Missing and req = req_name_example and hb = "[]"
            and m = "''what is my name?''"]
          backend_message_ignores_history[where env = ?env and ha = history_example
            and tfile = Missing and req = req_name_example and hb = "[]"
            and m = "''what is my name?''"]
          e p example_request(2,7)
    by simp
qed

subsection \<open>Training candidates\<close>



lemma source_tags:
  "route_source env req \<in> {''cohere'', ''error'', ''default''}"
  "socket_source env req \<in> {''cohere'', ''error'', ''default''}"
  unfolding route_source_def socket_source_def bot_logic_cases socket_bot_logic_cases
  by (auto split: sum.splits)



subsection \<open>The mood analysis in the answer\<close>






subsection \<open>The training file\<close>




lemma saveTrainingEntry_readable:
  "entries f \<noteq> None \<Longrightarrow> entries (saveTrainingEntry writable entry f) \<noteq> None"
  by (cases f rule: entries.cases) (auto simp: saveTrainingEntry_def)




end
